theory Spec2Isabelle
  imports Complex_Main "HOL-Library.Multiset" "HOL-Library.List_Lexorder" "HOL-Library.Char_ord"
begin

section \<open>Values shared by the components\<close>

text \<open>
  Attribute values of a GeoJSON feature, as far as the ingestion script looks at them: a
  text, an integer number, a boolean or JSON null. A key that is absent from the attribute
  bag reads as \<open>undefined\<close> in JavaScript and is a missing entry of the association list.
  Nested objects, arrays and fractional numbers are outside the model.
\<close>

datatype jsval = JNull | JBool bool | JNum int | JStr string

type_synonym json_obj = "(string \<times> jsval) list"

text \<open>JavaScript truthiness, which decides every \<open>a || b\<close> of the source.\<close>

fun truthy :: "jsval option \<Rightarrow> bool" where
  "truthy None = False"
| "truthy (Some JNull) = False"
| "truthy (Some (JBool b)) = b"
| "truthy (Some (JNum n)) = (n \<noteq> 0)"
| "truthy (Some (JStr s)) = (s \<noteq> [])"

text \<open>
  SQL's three-valued logic. A comparison with NULL is \<open>SqlNull\<close>, and a WHERE clause
  keeps a row only when its condition is \<open>SqlTrue\<close>.
\<close>

datatype tri = SqlTrue | SqlFalse | SqlNull

fun sql_and :: "tri \<Rightarrow> tri \<Rightarrow> tri" where
  "sql_and SqlFalse _ = SqlFalse"
| "sql_and _ SqlFalse = SqlFalse"
| "sql_and SqlTrue SqlTrue = SqlTrue"
| "sql_and _ _ = SqlNull"

fun sql_or :: "tri \<Rightarrow> tri \<Rightarrow> tri" where
  "sql_or SqlTrue _ = SqlTrue"
| "sql_or _ SqlTrue = SqlTrue"
| "sql_or SqlFalse SqlFalse = SqlFalse"
| "sql_or _ _ = SqlNull"

definition sql_bool :: "bool \<Rightarrow> tri" where
  "sql_bool b = (if b then SqlTrue else SqlFalse)"

fun sql_eq :: "'a option \<Rightarrow> 'a option \<Rightarrow> tri" where
  "sql_eq (Some a) (Some b) = sql_bool (a = b)"
| "sql_eq _ _ = SqlNull"

fun sql_is_null :: "'a option \<Rightarrow> tri" where
  "sql_is_null None = SqlTrue"
| "sql_is_null (Some _) = SqlFalse"

text \<open>\<open>x BETWEEN lo AND hi\<close> is \<open>x >= lo AND x <= hi\<close>; the bounds are bound parameters.\<close>

fun sql_between :: "rat option \<Rightarrow> rat \<Rightarrow> rat \<Rightarrow> tri" where
  "sql_between None lo hi = SqlNull"
| "sql_between (Some x) lo hi = sql_and (sql_bool (lo \<le> x)) (sql_bool (x \<le> hi))"

section \<open>The villages table in the fallback layout\<close>

text \<open>
  One row of \<open>villages\<close> as \<open>createVillagesTable\<close> lays it out without PostGIS. The
  serial key \<open>id\<close> is \<open>id_col\<close>; the two timestamps are left out. The JSONB columns hold
  the attribute bag and the JSON text of the geometry. A table is the list of its rows in
  insertion order.
\<close>

record village =
  id_col :: nat
  gid :: "string option"
  name :: string
  state :: "string option"
  district :: "string option"
  block :: "string option"
  properties :: json_obj
  boundary_geojson :: "string option"
  centroid_lat :: "rat option"
  centroid_lon :: "rat option"

section \<open>Bounding-box query of GET /api/villages\<close>

text \<open>
  The handler splits \<open>bbox\<close> into \<open>[minLon, minLat, maxLon, maxLat]\<close>, rejects the request
  when one of them is not a number, and binds \<open>[minLat, maxLat, minLon, maxLon, limit]\<close> to
  \<open>$1 .. $5\<close>. The bounds are modelled as rationals.
\<close>

record bbox =
  minLon :: rat
  minLat :: rat
  maxLon :: rat
  maxLat :: rat

text \<open>
  The WHERE clause, over the parameters \<open>$1 .. $4\<close>:
  \<^verbatim>\<open>(centroid_lat BETWEEN $1 AND $2 OR centroid_lat IS NULL)
  AND (centroid_lon BETWEEN $3 AND $4 OR centroid_lon IS NULL)\<close>
\<close>

definition villages_where :: "rat \<Rightarrow> rat \<Rightarrow> rat \<Rightarrow> rat \<Rightarrow> village \<Rightarrow> tri" where
  "villages_where p1 p2 p3 p4 r =
     sql_and
       (sql_or (sql_between (centroid_lat r) p1 p2) (sql_is_null (centroid_lat r)))
       (sql_or (sql_between (centroid_lon r) p3 p4) (sql_is_null (centroid_lon r)))"

text \<open>The handler's binding of the box to the parameters.\<close>

definition bbox_keeps :: "bbox \<Rightarrow> village \<Rightarrow> bool" where
  "bbox_keeps b r \<longleftrightarrow>
     villages_where (minLat b) (maxLat b) (minLon b) (maxLon b) r = SqlTrue"

definition eligible :: "bbox \<Rightarrow> village list \<Rightarrow> village list" where
  "eligible b tbl = filter (bbox_keeps b) tbl"

text \<open>
  \<open>ORDER BY name\<close> fixes the order of the result up to rows of equal name: the statement
  names no second sort key, and SQL leaves the order of rows that compare equal to the
  implementation. The collation of the column is the parameter \<open>ckey\<close>, a sort key into a
  linear order. \<open>LIMIT n\<close> keeps the first \<open>n\<close> rows of the order that was chosen.
\<close>

definition sql_order_by :: "('r \<Rightarrow> 'k::linorder) \<Rightarrow> 'r list \<Rightarrow> 'r list \<Rightarrow> bool" where
  "sql_order_by k xs ys \<longleftrightarrow> mset ys = mset xs \<and> sorted (map k ys)"

definition queryByBoundingBox ::
  "(string \<Rightarrow> 'k::linorder) \<Rightarrow> bbox \<Rightarrow> nat \<Rightarrow> village list \<Rightarrow> village list \<Rightarrow> bool" where
  "queryByBoundingBox ckey b n tbl res \<longleftrightarrow>
     (\<exists>ys. sql_order_by (\<lambda>r. ckey (name r)) (eligible b tbl) ys \<and> res = take n ys)"

section \<open>The database connection and the console\<close>

text \<open>
  Every statement the schema manager and the import script send through
  \<open>dbManager.query\<close>. The DDL statements carry what decides their effect: the name of the
  object and, for a table, its columns (name, type, referenced table); defaults, checks
  and NOT NULL are left out. \<open>ReplaceTrigger\<close> is the two-statement text
  \<open>DROP TRIGGER IF EXISTS n ON t; CREATE TRIGGER n BEFORE ev ON t ... EXECUTE FUNCTION f\<close>
  with the arguments \<open>n\<close>, \<open>t\<close>, \<open>ev\<close>, \<open>f\<close>; \<open>CreateFunction\<close> is
  \<open>CREATE OR REPLACE FUNCTION\<close> with the name and the body. \<open>SelectExisting\<close> and
  \<open>InsertVillage\<close> are the two statements of the import script with their parameters
  (NULL is \<open>None\<close>), \<open>SelectNow\<close> is the query of \<open>testConnection\<close>.
\<close>

datatype coltype = Serial | Text | Jsonb | Numeric | Timestamptz | Uuid | Integer | Boolean
  | Geometry

record column =
  cname :: string
  ctype :: coltype
  references :: "string option"

datatype index_using = Btree | Gist | Gin

datatype stmt =
    CreateExtension string
  | CreateTable string "column list"
  | CreateIndex string string index_using string "string option"
  | CreateFunction string string
  | ReplaceTrigger string string string string
  | SelectCount string
  | SelectExisting "string option" "string option" "string option"
  | InsertVillage "string option" "string option" "string option" "string option"
      "string option" json_obj "string option"
  | SelectNow

text \<open>
  An exception: the error a failed query throws, or the TypeError of reading a property of
  \<open>undefined\<close>. The text is the message.
\<close>

datatype error = QueryError string | TypeError string

text \<open>
  \<open>dbManager.query\<close> is a parameter of the model: given a statement and the state of the
  database it throws, or returns a result set and the new state. A result set is the list
  of its rows, each row reduced to the integer of its first column (\<open>id\<close>, \<open>count\<close>).
  A statement that throws leaves the database as it was.
\<close>

type_synonym 'db dbManager = "stmt \<Rightarrow> 'db \<Rightarrow> error + (nat list \<times> 'db)"

datatype log_line =
    ExtensionEnabled string
  | ExtensionNotAvailable string error
  | SimplifiedGeometryNote
  | TablesVerified
  | IndexWarning error
  | IndexesVerified
  | TriggersVerified
  | SchemaInitialized
  | SchemaInitFailed error
  | ImportProgress nat
  | ImportError error
  | TooManyErrors
  | ImportSummary nat nat nat
  | TotalVillages nat
  | ImportFailed error

text \<open>
  The state a run works on: the database, the field \<open>this.postgisAvailable\<close> of the schema
  manager (unset reads as false) and the lines written to the console.
\<close>

record 'db world =
  db :: 'db
  postgisAvailable :: bool
  console :: "log_line list"

text \<open>
  An asynchronous function is a state transformer that throws (\<open>Inl\<close>) or returns
  (\<open>Inr\<close>); the state it leaves behind is kept in both cases.
\<close>

type_synonym ('a, 'db) prog = "'db world \<Rightarrow> (error + 'a) \<times> 'db world"

definition returns :: "'a \<Rightarrow> ('a, 'db) prog" where
  "returns x = (\<lambda>w. (Inr x, w))"

definition throws :: "error \<Rightarrow> ('a, 'db) prog" where
  "throws e = (\<lambda>w. (Inl e, w))"

definition and_then :: "('a, 'db) prog \<Rightarrow> ('a \<Rightarrow> ('b, 'db) prog) \<Rightarrow> ('b, 'db) prog" where
  "and_then p f = (\<lambda>w. case p w of (Inl e, w1) \<Rightarrow> (Inl e, w1) | (Inr x, w1) \<Rightarrow> f x w1)"

definition try_catch :: "('a, 'db) prog \<Rightarrow> (error \<Rightarrow> ('a, 'db) prog) \<Rightarrow> ('a, 'db) prog" where
  "try_catch p h = (\<lambda>w. case p w of (Inl e, w1) \<Rightarrow> h e w1 | (Inr x, w1) \<Rightarrow> (Inr x, w1))"

definition console_log :: "log_line \<Rightarrow> (unit, 'db) prog" where
  "console_log l = (\<lambda>w. (Inr (), w\<lparr>console := console w @ [l]\<rparr>))"

definition query :: "'db dbManager \<Rightarrow> stmt \<Rightarrow> (nat list, 'db) prog" where
  "query q s = (\<lambda>w. case q s (db w) of
       Inl e \<Rightarrow> (Inl e, w)
     | Inr (rows, d) \<Rightarrow> (Inr rows, w\<lparr>db := d\<rparr>))"


section \<open>SchemaManager\<close>


definition set_postgisAvailable :: "bool \<Rightarrow> (unit, 'db) prog" where
  "set_postgisAvailable pa = (\<lambda>w. (Inr (), w\<lparr>postgisAvailable := pa\<rparr>))"

subsection \<open>enableExtensions\<close>

text \<open>The array \<open>extensions\<close>: name and \<open>required\<close> flag, in the order of the source.\<close>

definition extensions :: "(string \<times> bool) list" where
  "extensions = [(''pg_trgm'', False), (''btree_gist'', False), (''postgis'', False),
     (''postgis_topology'', False)]"

text \<open>The loop over the extensions; \<open>pa\<close> is the local variable \<open>postgisAvailable\<close>.\<close>

fun enable_loop :: "'db dbManager \<Rightarrow> (string \<times> bool) list \<Rightarrow> bool \<Rightarrow> (bool, 'db) prog" where
  "enable_loop q [] pa = returns pa"
| "enable_loop q (ext # exts) pa =
     and_then
       (try_catch
          (and_then (query q (CreateExtension (fst ext))) (\<lambda>_.
           and_then (console_log (ExtensionEnabled (fst ext))) (\<lambda>_.
           returns (if fst ext = ''postgis'' then True else pa))))
          (\<lambda>e. if snd ext then throws e
                else and_then (console_log (ExtensionNotAvailable (fst ext) e)) (\<lambda>_.
                     returns pa)))
       (\<lambda>pa'. enable_loop q exts pa')"

definition enableExtensions :: "'db dbManager \<Rightarrow> (unit, 'db) prog" where
  "enableExtensions q =
     and_then (enable_loop q extensions False) (\<lambda>pa.
     and_then (set_postgisAvailable pa) (\<lambda>_.
     if \<not> pa then console_log SimplifiedGeometryNote else returns ()))"

subsection \<open>createTables\<close>

definition col :: "string \<Rightarrow> coltype \<Rightarrow> column" where
  "col n t = \<lparr>cname = n, ctype = t, references = None\<rparr>"


definition villages_columns :: "bool \<Rightarrow> column list" where
  "villages_columns pg =
     (if pg then
        [col ''id'' Serial, col ''gid'' Text, col ''name'' Text, col ''state'' Text,
         col ''district'' Text, col ''block'' Text, col ''properties'' Jsonb,
         col ''boundary'' Geometry, col ''centroid'' Geometry,
         col ''created_at'' Timestamptz, col ''updated_at'' Timestamptz]
      else
        [col ''id'' Serial, col ''gid'' Text, col ''name'' Text, col ''state'' Text,
         col ''district'' Text, col ''block'' Text, col ''properties'' Jsonb,
         col ''boundary_geojson'' Jsonb, col ''centroid_lat'' Numeric,
         col ''centroid_lon'' Numeric,
         col ''created_at'' Timestamptz, col ''updated_at'' Timestamptz])"









subsection \<open>createIndexes\<close>









subsection \<open>createTriggers\<close>



subsection \<open>initializeSchema\<close>


subsection \<open>getDatabaseStats\<close>

text \<open>An entry of the object \<open>stats\<close>: a row count, or the text \<open>'Error'\<close>.\<close>

datatype stat = Count nat | ErrorMarker

definition entity_tables :: "string list" where
  "entity_tables = [''villages'', ''claimants'', ''micro_assets'', ''documents'', ''users'']"

text \<open>
  One round of the loop: \<open>result.rows[0].count\<close> throws a TypeError when the result has no
  row; whatever is thrown inside \<open>try\<close> leaves the marker.
\<close>

definition count_table :: "'db dbManager \<Rightarrow> string \<Rightarrow> (stat, 'db) prog" where
  "count_table q t =
     try_catch
       (and_then (query q (SelectCount t)) (\<lambda>rows.
          case rows of
            [] \<Rightarrow> throws (TypeError ''Cannot read properties of undefined'')
          | n # _ \<Rightarrow> returns (Count n)))
       (\<lambda>e. returns ErrorMarker)"

fun stats_loop ::
  "'db dbManager \<Rightarrow> string list \<Rightarrow> (string \<rightharpoonup> stat) \<Rightarrow> (string \<rightharpoonup> stat, 'db) prog" where
  "stats_loop q [] stats = returns stats"
| "stats_loop q (t # ts) stats =
     and_then (count_table q t) (\<lambda>v. stats_loop q ts (stats(t \<mapsto> v)))"

definition getDatabaseStats :: "'db dbManager \<Rightarrow> (string \<rightharpoonup> stat, 'db) prog" where
  "getDatabaseStats q = stats_loop q entity_tables Map.empty"

section \<open>importVillages\<close>

text \<open>
  A feature of the GeoJSON file: its attribute bag (\<open>None\<close> when the feature has no
  \<open>properties\<close> or a null one, so that reading \<open>properties.gid\<close> throws) and the JSON text
  of its geometry.
\<close>

record feature =
  feature_properties :: "json_obj option"
  feature_geometry :: "string option"

text \<open>\<open>a || b\<close>.\<close>

definition or_else :: "jsval option \<Rightarrow> jsval option \<Rightarrow> jsval option" where
  "or_else a b = (if truthy a then a else b)"

text \<open>
  The text node-postgres sends for a parameter: a number in decimal digits, a boolean as
  \<open>true\<close> or \<open>false\<close>; \<open>null\<close> and \<open>undefined\<close> are sent as NULL.
\<close>

fun digits :: "nat \<Rightarrow> string" where
  "digits n = (if n < 10 then [char_of (48 + n)]
     else digits (n div 10) @ [char_of (48 + n mod 10)])"

declare digits.simps [simp del]

fun pg_text :: "jsval \<Rightarrow> string option" where
  "pg_text JNull = None"
| "pg_text (JBool b) = Some (if b then ''true'' else ''false'')"
| "pg_text (JNum n) = Some (if n < 0 then CHR ''-'' # digits (nat (- n)) else digits (nat n))"
| "pg_text (JStr s) = Some s"

definition to_param :: "jsval option \<Rightarrow> string option" where
  "to_param v = (case v of None \<Rightarrow> None | Some x \<Rightarrow> pg_text x)"

text \<open>The fields of \<open>villageData\<close>, as the parameters they become.\<close>

definition village_gid :: "json_obj \<Rightarrow> string option" where
  "village_gid p = to_param (or_else (map_of p ''gid'') (Some JNull))"

definition village_name :: "json_obj \<Rightarrow> string option" where
  "village_name p = to_param
     (or_else (map_of p ''name'') (or_else (map_of p ''NAME'') (Some (JStr ''Unknown''))))"

definition village_state :: "json_obj \<Rightarrow> string option" where
  "village_state p = to_param
     (or_else (map_of p ''state'') (or_else (map_of p ''STATE'') (Some JNull)))"

definition village_district :: "json_obj \<Rightarrow> string option" where
  "village_district p = to_param
     (or_else (map_of p ''district'') (or_else (map_of p ''DISTRICT'') (Some JNull)))"

definition village_block :: "json_obj \<Rightarrow> string option" where
  "village_block p = to_param
     (or_else (map_of p ''block'') (or_else (map_of p ''BLOCK'') (Some JNull)))"

datatype outcome = Imported | Skipped

text \<open>The body of \<open>try\<close> for one feature, up to the update of the counters.\<close>

definition import_feature :: "'db dbManager \<Rightarrow> feature \<Rightarrow> (outcome, 'db) prog" where
  "import_feature q f =
     (case feature_properties f of
        None \<Rightarrow> throws (TypeError ''Cannot read properties of undefined'')
      | Some p \<Rightarrow>
          and_then
            (query q (SelectExisting (village_gid p) (village_name p) (village_district p)))
            (\<lambda>existing.
               if length existing > 0 then returns Skipped
               else and_then
                 (query q (InsertVillage (village_gid p) (village_name p) (village_state p)
                    (village_district p) (village_block p) p (feature_geometry f)))
                 (\<lambda>_. returns Imported)))"

record counters =
  imported :: nat
  skipped :: nat
  errors :: nat

text \<open>
  One round of the loop over the features. The result is the counters and whether the
  round ended in \<open>break\<close>.
\<close>

definition import_round :: "'db dbManager \<Rightarrow> feature \<Rightarrow> counters \<Rightarrow> (counters \<times> bool, 'db) prog" where
  "import_round q f c =
     try_catch
       (and_then (import_feature q f) (\<lambda>out.
          case out of
            Skipped \<Rightarrow> returns (c\<lparr>skipped := skipped c + 1\<rparr>, False)
          | Imported \<Rightarrow>
              and_then
                (if (imported c + 1) mod 50 = 0 then console_log (ImportProgress (imported c + 1))
                 else returns ())
                (\<lambda>_. returns (c\<lparr>imported := imported c + 1\<rparr>, False))))
       (\<lambda>e.
          and_then (console_log (ImportError e)) (\<lambda>_.
          if errors c + 1 > 10
          then and_then (console_log TooManyErrors) (\<lambda>_.
               returns (c\<lparr>errors := errors c + 1\<rparr>, True))
          else returns (c\<lparr>errors := errors c + 1\<rparr>, False)))"

fun import_loop :: "'db dbManager \<Rightarrow> feature list \<Rightarrow> counters \<Rightarrow> (counters, 'db) prog" where
  "import_loop q [] c = returns c"
| "import_loop q (f # fs) c =
     and_then (import_round q f c) (\<lambda>(c', stop).
       if stop then returns c' else import_loop q fs c')"

text \<open>
  \<open>importVillages\<close> from the parsed array \<open>geoData.features\<close> on: the connection test, the
  loop, the summary and the count of the table. The outer \<open>catch\<close> logs and ends the
  process, which the model shows as the exception.
\<close>

definition importVillages :: "'db dbManager \<Rightarrow> feature list \<Rightarrow> (unit, 'db) prog" where
  "importVillages q features =
     try_catch
       (and_then (query q SelectNow) (\<lambda>_.
        and_then (import_loop q features \<lparr>imported = 0, skipped = 0, errors = 0\<rparr>) (\<lambda>c.
        and_then (console_log (ImportSummary (imported c) (skipped c) (errors c))) (\<lambda>_.
        and_then (query q (SelectCount ''villages'')) (\<lambda>rows.
          case rows of
            [] \<Rightarrow> throws (TypeError ''Cannot read properties of undefined'')
          | n # _ \<Rightarrow> console_log (TotalVillages n))))))
       (\<lambda>e. and_then (console_log (ImportFailed e)) (\<lambda>_. throws e))"

section \<open>A model of the PostgreSQL server\<close>

text \<open>
  The state of the server as far as the statements above read or change it: the
  extensions it can install and those installed, the catalog of tables, indexes, trigger
  functions and triggers, the rows of \<open>villages\<close> in insertion order with the last value
  of its serial sequence, and the row counts of the other tables.
\<close>

record pgdb =
  available :: "string set"
  installed :: "string set"
  tables :: "string \<rightharpoonup> column list"
  indexes :: "string \<rightharpoonup> string \<times> index_using \<times> string \<times> string option"
  trigger_functions :: "string \<rightharpoonup> string"
  triggers :: "string \<times> string \<rightharpoonup> string \<times> string"
  villages_rows :: "village list"
  villages_seq :: nat
  other_rows :: "string \<Rightarrow> nat"

definition has_columns :: "pgdb \<Rightarrow> string \<Rightarrow> string list \<Rightarrow> bool" where
  "has_columns d t cs =
     (case tables d t of None \<Rightarrow> False | Some cols \<Rightarrow> set cs \<subseteq> set (map cname cols))"

text \<open>Whether an index of this kind can be built on a column of this type.\<close>

fun index_supported :: "index_using \<Rightarrow> coltype \<Rightarrow> string option \<Rightarrow> string set \<Rightarrow> bool" where
  "index_supported Btree ty None inst = True"
| "index_supported Gist ty None inst = (ty = Geometry)"
| "index_supported Gin ty None inst = (ty = Jsonb)"
| "index_supported Gin ty (Some oc) inst =
     (oc = ''gin_trgm_ops'' \<and> ty = Text \<and> ''pg_trgm'' \<in> inst)"
| "index_supported _ ty (Some oc) inst = False"

text \<open>
  The WHERE clause of the existence check:
  \<^verbatim>\<open>gid = $1 OR (name = $2 AND district = $3)\<close>
\<close>

definition existing_where :: "string option \<Rightarrow> string option \<Rightarrow> string option \<Rightarrow> village \<Rightarrow> tri" where
  "existing_where p1 p2 p3 r =
     sql_or (sql_eq (gid r) p1) (sql_and (sql_eq (Some (name r)) p2) (sql_eq (district r) p3))"

text \<open>
  Whether \<open>villages\<close> has the columns the existence check names, and those the INSERT of
  the import script names (the fallback layout has them, the PostGIS layout has no
  \<open>boundary_geojson\<close>).
\<close>

definition select_ready :: "pgdb \<Rightarrow> bool" where
  "select_ready d = has_columns d ''villages'' [''id'', ''gid'', ''name'', ''district'']"

definition insert_ready :: "pgdb \<Rightarrow> bool" where
  "insert_ready d = has_columns d ''villages''
     [''gid'', ''name'', ''state'', ''district'', ''block'', ''properties'',
      ''boundary_geojson'']"

text \<open>Whether a row satisfies the existence check for the attribute bag of a feature.\<close>

definition matches :: "json_obj \<Rightarrow> village \<Rightarrow> bool" where
  "matches p r \<longleftrightarrow>
     existing_where (village_gid p) (village_name p) (village_district p) r = SqlTrue"


definition unavailable :: "string \<Rightarrow> error" where
  "unavailable n = QueryError (''extension is not available: '' @ n)"

definition no_relation :: "string \<Rightarrow> error" where
  "no_relation t = QueryError (''relation does not exist: '' @ t)"

definition no_column :: "string \<Rightarrow> error" where
  "no_column c = QueryError (''column does not exist: '' @ c)"

fun pg_query :: "pgdb dbManager" where
  "pg_query (CreateExtension n) d =
     (if n \<in> installed d then Inr ([], d)
      else if n \<in> available d \<and> (n \<noteq> ''postgis_topology'' \<or> ''postgis'' \<in> installed d)
      then Inr ([], d\<lparr>installed := insert n (installed d)\<rparr>)
      else Inl (unavailable n))"
| "pg_query (CreateTable t cols) d =
     (if t \<in> dom (tables d) then Inr ([], d)
      else if Geometry \<in> set (map ctype cols) \<and> ''postgis'' \<notin> installed d
      then Inl (QueryError ''type geometry does not exist'')
      else if list_ex (\<lambda>c. case references c of None \<Rightarrow> False
                 | Some r \<Rightarrow> r \<notin> dom (tables d)) cols
      then Inl (QueryError ''referenced relation does not exist'')
      else Inr ([], d\<lparr>tables := (tables d)(t \<mapsto> cols)\<rparr>))"
| "pg_query (CreateIndex n t u c oc) d =
     (if n \<in> dom (indexes d) then Inr ([], d)
      else case tables d t of
        None \<Rightarrow> Inl (no_relation t)
      | Some cols \<Rightarrow>
          (case find (\<lambda>x. cname x = c) cols of
             None \<Rightarrow> Inl (no_column c)
           | Some x \<Rightarrow>
               if index_supported u (ctype x) oc (installed d)
               then Inr ([], d\<lparr>indexes := (indexes d)(n \<mapsto> (t, u, c, oc))\<rparr>)
               else Inl (QueryError ''operator class does not exist for access method'')))"
| "pg_query (CreateFunction f body) d = Inr ([], d\<lparr>trigger_functions := (trigger_functions d)(f \<mapsto> body)\<rparr>)"
| "pg_query (ReplaceTrigger n t ev f) d =
     (if t \<notin> dom (tables d) then Inl (no_relation t)
      else if f \<notin> dom (trigger_functions d) then Inl (QueryError ''function does not exist'')
      else Inr ([], d\<lparr>triggers := (triggers d)((t, n) \<mapsto> (ev, f))\<rparr>))"
| "pg_query (SelectCount t) d =
     (if t \<notin> dom (tables d) then Inl (no_relation t)
      else Inr ([if t = ''villages'' then length (villages_rows d) else other_rows d t], d))"
| "pg_query (SelectExisting p1 p2 p3) d =
     (if \<not> select_ready d then Inl (no_column ''villages'')
      else Inr (map id_col (filter (\<lambda>r. existing_where p1 p2 p3 r = SqlTrue) (villages_rows d)),
             d))"
| "pg_query (InsertVillage g n s di b p geo) d =
     (if \<not> insert_ready d then Inl (no_column ''villages'')
      else case n of
        None \<Rightarrow> Inl (QueryError ''null value in column name violates not-null constraint'')
      | Some nm \<Rightarrow>
          Inr ([villages_seq d + 1],
               d\<lparr>villages_rows := villages_rows d @
                    [\<lparr>id_col = villages_seq d + 1, gid = g, name = nm, state = s,
                      district = di, block = b, properties = p, boundary_geojson = geo,
                      centroid_lat = None, centroid_lon = None\<rparr>],
                  villages_seq := villages_seq d + 1\<rparr>))"
| "pg_query SelectNow d = Inr ([0], d)"

text \<open>A server without any object, which can install the extensions \<open>av\<close>.\<close>

definition fresh_db :: "string set \<Rightarrow> pgdb" where
  "fresh_db av = \<lparr>available = av, installed = {}, tables = Map.empty, indexes = Map.empty,
     trigger_functions = Map.empty, triggers = Map.empty, villages_rows = [], villages_seq = 0,
     other_rows = (\<lambda>_. 0)\<rparr>"

definition start :: "'db \<Rightarrow> 'db world" where
  "start d = \<lparr>db = d, postgisAvailable = False, console = []\<rparr>"

section \<open>Reference descriptions used by the claims\<close>

text \<open>
  The capability probe in the words of the specification, to be compared with
  \<open>enableExtensions\<close>: one attempt enables an extension; a failure is logged and
  swallowed; the flag is raised by a successful attempt on \<open>postgis\<close>.
\<close>

definition attempt_extension ::
  "'db dbManager \<Rightarrow> 'db world \<times> bool \<Rightarrow> string \<Rightarrow> 'db world \<times> bool" where
  "attempt_extension q s n =
     (case q (CreateExtension n) (db (fst s)) of
        Inl e \<Rightarrow> (fst s\<lparr>console := console (fst s) @ [ExtensionNotAvailable n e]\<rparr>, snd s)
      | Inr (rows, d) \<Rightarrow>
          (fst s\<lparr>db := d, console := console (fst s) @ [ExtensionEnabled n]\<rparr>,
           snd s \<or> n = ''postgis''))"

definition record_capability :: "'db world \<times> bool \<Rightarrow> 'db world" where
  "record_capability s =
     (if snd s then fst s\<lparr>postgisAvailable := True\<rparr>
      else fst s\<lparr>postgisAvailable := False,
                 console := console (fst s) @ [SimplifiedGeometryNote]\<rparr>)"














text \<open>A database that holds the empty table \<open>villages\<close> in the fallback layout.\<close>

definition fallback_db :: pgdb where
  "fallback_db = (fresh_db {})\<lparr>tables := [''villages'' \<mapsto> villages_columns False]\<rparr>"

text \<open>Example features: one with a name only, one with a gid, one without properties.\<close>

definition named_feature :: "string \<Rightarrow> feature" where
  "named_feature n = \<lparr>feature_properties = Some [(''name'', JStr n)],
     feature_geometry = Some ''{}''\<rparr>"


definition broken_feature :: feature where
  "broken_feature = \<lparr>feature_properties = None, feature_geometry = None\<rparr>"

definition db_without_documents :: pgdb where
  "db_without_documents = (fresh_db {})\<lparr>tables := [''villages'' \<mapsto> [], ''claimants'' \<mapsto> [],
     ''micro_assets'' \<mapsto> [], ''users'' \<mapsto> []], other_rows := (\<lambda>_. 4)\<rparr>"

text \<open>Example data: the box of the documentation, and rows that differ in their key only.\<close>

definition box_77_20 :: bbox where
  "box_77_20 = \<lparr>minLon = 77, minLat = 20, maxLon = 78, maxLat = 21\<rparr>"

definition plain_row :: "nat \<Rightarrow> string \<Rightarrow> village" where
  "plain_row i n = \<lparr>id_col = i, gid = None, name = n, state = None, district = None,
     block = None, properties = [], boundary_geojson = None, centroid_lat = None,
     centroid_lon = None\<rparr>"

section \<open>Properties of the bounding-box query\<close>

lemma bbox_keeps_null: "centroid_lat r = None \<Longrightarrow> centroid_lon r = None \<Longrightarrow> bbox_keeps b r"
  by (simp add: bbox_keeps_def villages_where_def)

lemma eligible_plain_rows:
  "eligible b [plain_row i n, plain_row j m] = [plain_row i n, plain_row j m]"
  by (simp add: eligible_def bbox_keeps_null plain_row_def)

text \<open>
  C1. A row whose \<open>centroid_lat\<close> and \<open>centroid_lon\<close> are both NULL passes the WHERE clause
  of the bounding-box query for every box, so it is among the eligible rows of every table
  that holds it.
\<close>

theorem C1_null_centroid_always_eligible:
  "r \<in> set tbl \<Longrightarrow> centroid_lat r = None \<Longrightarrow> centroid_lon r = None \<Longrightarrow>
     r \<in> set (eligible b tbl)"
  by (simp add: eligible_def bbox_keeps_null)

theorem C1_null_centroid_witness:
  "plain_row 7 ''Amba'' \<in> set [plain_row 7 ''Amba'']
   \<and> centroid_lat (plain_row 7 ''Amba'') = None
   \<and> centroid_lon (plain_row 7 ''Amba'') = None
   \<and> plain_row 7 ''Amba'' \<in> set (eligible box_77_20 [plain_row 7 ''Amba''])"
proof -
  have a: "plain_row 7 ''Amba'' \<in> set [plain_row 7 ''Amba'']"
    by simp
  have b: "centroid_lat (plain_row 7 ''Amba'') = None"
    by (simp add: plain_row_def)
  have c: "centroid_lon (plain_row 7 ''Amba'') = None"
    by (simp add: plain_row_def)
  from a b c C1_null_centroid_always_eligible [OF a b c, of box_77_20]
  show ?thesis by blast
qed


text \<open>
  C4, as the specification states it, would make every result of the query the first \<open>n\<close>
  rows of the stable sort of the eligible rows by name (rows of equal name in insertion
  order). The statement only says \<open>ORDER BY name\<close>: with two eligible rows of the same
  name and \<open>LIMIT 1\<close>, the row inserted second is a result the statement allows.
\<close>

theorem C4_tie_order_counterexample:
  "queryByBoundingBox (\<lambda>s. s) box_77_20 1 [plain_row 1 ''Amba'', plain_row 2 ''Amba'']
     [plain_row 2 ''Amba'']
   \<and> [plain_row 2 ''Amba''] \<noteq>
       take 1 (sort_key (\<lambda>r. name r)
         (eligible box_77_20 [plain_row 1 ''Amba'', plain_row 2 ''Amba'']))"
proof -
  have "sql_order_by (\<lambda>r. name r) [plain_row 1 ''Amba'', plain_row 2 ''Amba'']
      [plain_row 2 ''Amba'', plain_row 1 ''Amba'']"
    by (simp add: sql_order_by_def plain_row_def)
  moreover have "[plain_row 2 ''Amba''] = take 1 [plain_row 2 ''Amba'', plain_row 1 ''Amba'']"
    by simp
  ultimately have "queryByBoundingBox (\<lambda>s. s) box_77_20 1
      [plain_row 1 ''Amba'', plain_row 2 ''Amba''] [plain_row 2 ''Amba'']"
    unfolding queryByBoundingBox_def eligible_plain_rows by blast
  moreover have "[plain_row 2 ''Amba''] \<noteq>
      take 1 (sort_key (\<lambda>r. name r) [plain_row 1 ''Amba'', plain_row 2 ''Amba''])"
    by (simp add: plain_row_def)
  ultimately show ?thesis
    unfolding eligible_plain_rows by blast
qed

text \<open>
  C4, amended. Every result of the query with limit \<open>n\<close> is ordered by name ascending,
  holds eligible rows only, has \<open>min n\<close> (number of eligible rows) rows, and is the first
  \<open>n\<close> rows of a result that the same query allows without truncation (limit at least
  the size of the table): the limit truncates and never changes which rows are eligible.
  The order among rows of equal name is not fixed; when no two eligible rows share a name
  the result is exactly the first \<open>n\<close> rows of the eligible rows sorted by name.
\<close>

theorem C4_ordered_then_truncated:
  assumes "queryByBoundingBox ckey b n tbl res"
  shows "sorted (map (\<lambda>r. ckey (name r)) res)
    \<and> set res \<subseteq> set (eligible b tbl)
    \<and> length res = min n (length (eligible b tbl))
    \<and> (\<exists>ys. queryByBoundingBox ckey b (length tbl) tbl ys \<and> res = take n ys)
    \<and> (inj_on (\<lambda>r. ckey (name r)) (set (eligible b tbl)) \<longrightarrow>
          res = take n (sort_key (\<lambda>r. ckey (name r)) (eligible b tbl)))"
proof -
  let ?k = "\<lambda>r. ckey (name r)"
  from assms obtain ys where ys: "mset ys = mset (eligible b tbl)" "sorted (map ?k ys)"
    and res: "res = take n ys"
    unfolding queryByBoundingBox_def sql_order_by_def by blast
  have len: "length ys = length (eligible b tbl)"
    using ys(1) by (metis size_mset)
  have "length (eligible b tbl) \<le> length tbl"
    by (simp add: eligible_def)
  then have full: "take (length tbl) ys = ys"
    using len by simp
  have 1: "sorted (map ?k res)"
    using ys(2) res by (simp add: take_map[symmetric])
  have 2: "set res \<subseteq> set (eligible b tbl)"
    using res ys(1) by (metis mset_eq_setD set_take_subset)
  have 3: "length res = min n (length (eligible b tbl))"
    using res len by simp
  have 4: "\<exists>ys. queryByBoundingBox ckey b (length tbl) tbl ys \<and> res = take n ys"
    unfolding queryByBoundingBox_def sql_order_by_def using ys res full by metis
  have 5: "res = take n (sort_key ?k (eligible b tbl))" if "inj_on ?k (set (eligible b tbl))"
    using sort_key_inj_key_eq[OF ys(1)[symmetric] that ys(2)] res by simp
  from 1 2 3 4 5 show ?thesis by blast
qed

theorem C4_ordered_then_truncated_witness:
  "queryByBoundingBox (\<lambda>s. s) box_77_20 1 [plain_row 1 ''Bari'', plain_row 2 ''Amba'']
     [plain_row 2 ''Amba'']
   \<and> inj_on (\<lambda>r. name r) (set (eligible box_77_20 [plain_row 1 ''Bari'', plain_row 2 ''Amba'']))
   \<and> sorted (map (\<lambda>r. name r) [plain_row 2 ''Amba''])
   \<and> length [plain_row 2 ''Amba''] =
       min 1 (length (eligible box_77_20 [plain_row 1 ''Bari'', plain_row 2 ''Amba'']))
   \<and> [plain_row 2 ''Amba''] = take 1 (sort_key (\<lambda>r. name r)
         (eligible box_77_20 [plain_row 1 ''Bari'', plain_row 2 ''Amba'']))"
proof -
  have "sql_order_by (\<lambda>r. name r) [plain_row 1 ''Bari'', plain_row 2 ''Amba'']
      [plain_row 2 ''Amba'', plain_row 1 ''Bari'']"
    by (simp add: sql_order_by_def plain_row_def)
  moreover have "[plain_row 2 ''Amba''] = take 1 [plain_row 2 ''Amba'', plain_row 1 ''Bari'']"
    by simp
  ultimately have q: "queryByBoundingBox (\<lambda>s. s) box_77_20 1
      [plain_row 1 ''Bari'', plain_row 2 ''Amba''] [plain_row 2 ''Amba'']"
    unfolding queryByBoundingBox_def eligible_plain_rows by blast
  have i: "inj_on (\<lambda>r. name r)
      (set (eligible box_77_20 [plain_row 1 ''Bari'', plain_row 2 ''Amba'']))"
    unfolding eligible_plain_rows by (simp add: plain_row_def)
  from q i C4_ordered_then_truncated [OF q] show ?thesis
    by simp
qed


section \<open>Properties of the program combinators\<close>


section \<open>Properties of getDatabaseStats\<close>

lemma count_table_fails:
  assumes "isl (q (SelectCount t) (db w))"
  shows "count_table q t w = (Inr ErrorMarker, w)"
proof -
  from assms obtain e where "q (SelectCount t) (db w) = Inl e"
    by (cases "q (SelectCount t) (db w)") auto
  then show ?thesis
    by (simp add: count_table_def try_catch_def and_then_def query_def returns_def)
qed

lemma count_table_counts:
  assumes "q (SelectCount t) (db w) = Inr (n # rest, db w)"
  shows "count_table q t w = (Inr (Count n), w)"
  using assms
  by (simp add: count_table_def try_catch_def and_then_def query_def returns_def)

lemma stats_loop_result:
  assumes fails: "\<And>t. t \<in> set ts \<Longrightarrow> t \<in> S \<Longrightarrow> isl (q (SelectCount t) (db w))"
    and counts: "\<And>t. t \<in> set ts \<Longrightarrow> t \<notin> S \<Longrightarrow>
       \<exists>rest. q (SelectCount t) (db w) = Inr (cnt t # rest, db w)"
  shows "stats_loop q ts m w =
      (Inr (\<lambda>t. if t \<in> set ts then Some (if t \<in> S then ErrorMarker else Count (cnt t))
                 else m t), w)"
  using assms
proof (induction ts arbitrary: m)
  case Nil
  then show ?case by (simp add: returns_def)
next
  case (Cons t ts)
  let ?v = "if t \<in> S then ErrorMarker else Count (cnt t)"
  have step: "count_table q t w = (Inr ?v, w)"
  proof (cases "t \<in> S")
    case True
    with Cons.prems(1)[of t] have "isl (q (SelectCount t) (db w))" by simp
    with count_table_fails[of q t w] True show ?thesis by simp
  next
    case False
    with Cons.prems(2)[of t] obtain rest where
      "q (SelectCount t) (db w) = Inr (cnt t # rest, db w)" by auto
    with count_table_counts[of q t w "cnt t" rest] False show ?thesis by simp
  qed
  have "stats_loop q ts (m(t \<mapsto> ?v)) w =
      (Inr (\<lambda>x. if x \<in> set ts then Some (if x \<in> S then ErrorMarker else Count (cnt x))
                else (m(t \<mapsto> ?v)) x), w)"
    using Cons.prems by (intro Cons.IH) auto
  moreover have "(\<lambda>x. if x \<in> set ts then Some (if x \<in> S then ErrorMarker else Count (cnt x))
                else (m(t \<mapsto> ?v)) x) =
     (\<lambda>x. if x \<in> set (t # ts) then Some (if x \<in> S then ErrorMarker else Count (cnt x))
           else m x)"
    by (rule ext) simp
  ultimately show ?case
    using step by (simp add: and_then_def)
qed

text \<open>
  C9. Let \<open>S\<close> be any set of table names. If, in the current state of the database, the
  count query of every entity table in \<open>S\<close> throws and the count query of every other
  entity table returns its count \<open>cnt t\<close> (and, being a read, leaves the database as it
  is), then \<open>getDatabaseStats\<close> returns normally a map with an entry for exactly the five
  entity tables, the error marker for the tables in \<open>S\<close> and the count for the others.
\<close>

theorem C9_stats_mark_only_failed_tables:
  assumes fails: "\<And>t. t \<in> set entity_tables \<Longrightarrow> t \<in> S \<Longrightarrow> isl (q (SelectCount t) (db w))"
    and counts: "\<And>t. t \<in> set entity_tables \<Longrightarrow> t \<notin> S \<Longrightarrow>
       \<exists>rest. q (SelectCount t) (db w) = Inr (cnt t # rest, db w)"
  shows "\<exists>stats. getDatabaseStats q w = (Inr stats, w)
     \<and> dom stats = set entity_tables
     \<and> (\<forall>t \<in> set entity_tables.
          stats t = Some (if t \<in> S then ErrorMarker else Count (cnt t)))"
proof -
  have "getDatabaseStats q w =
      (Inr (\<lambda>t. if t \<in> set entity_tables
                 then Some (if t \<in> S then ErrorMarker else Count (cnt t)) else None), w)"
    unfolding getDatabaseStats_def
    by (rule stats_loop_result[of entity_tables S q w cnt Map.empty, OF fails counts])
  then show ?thesis
    by (auto simp: dom_def split: if_splits)
qed

theorem C9_stats_witness:
  "\<exists>stats. getDatabaseStats pg_query (start db_without_documents) =
       (Inr stats, start db_without_documents)
     \<and> dom stats = set entity_tables
     \<and> stats ''documents'' = Some ErrorMarker
     \<and> stats ''villages'' = Some (Count 0)
     \<and> stats ''users'' = Some (Count 4)"
proof -
  let ?cnt = "\<lambda>t. if t = ''villages'' then 0 else (4::nat)"
  have fails: "isl (pg_query (SelectCount t) (db (start db_without_documents)))"
    if "t \<in> set entity_tables" "t \<in> {''documents''}" for t
    using that by (simp add: start_def db_without_documents_def fresh_db_def no_relation_def)
  have counts: "\<exists>rest. pg_query (SelectCount t) (db (start db_without_documents)) =
      Inr (?cnt t # rest, db (start db_without_documents))"
    if "t \<in> set entity_tables" "t \<notin> {''documents''}" for t
    using that by (auto simp: entity_tables_def start_def db_without_documents_def fresh_db_def)
  from C9_stats_mark_only_failed_tables
    [of "{''documents''}" pg_query "start db_without_documents" ?cnt, OF fails counts]
  obtain stats where
    "getDatabaseStats pg_query (start db_without_documents) =
       (Inr stats, start db_without_documents)"
    "dom stats = set entity_tables"
    "\<forall>t \<in> set entity_tables.
       stats t = Some (if t \<in> {''documents''} then ErrorMarker else Count (?cnt t))"
    by blast
  then show ?thesis
    by (intro exI[of _ stats]) (simp add: entity_tables_def)
qed

section \<open>Properties of enableExtensions\<close>

lemma enable_step:
  "enable_loop q ((n, False) # exts) pa w =
     enable_loop q exts (snd (attempt_extension q (w, pa) n)) (fst (attempt_extension q (w, pa) n))"
  by (cases "q (CreateExtension n) (db w)")
     (auto simp: attempt_extension_def and_then_def try_catch_def query_def console_log_def
        returns_def)

lemma snd_attempt_extension:
  "snd (attempt_extension q s n) =
     (snd s \<or> (n = ''postgis'' \<and> \<not> isl (q (CreateExtension n) (db (fst s)))))"
  by (cases "q (CreateExtension n) (db (fst s))") (auto simp: attempt_extension_def)

lemma enableExtensions_result:
  "enableExtensions q w =
     (Inr (), record_capability
        (attempt_extension q (attempt_extension q (attempt_extension q (attempt_extension q
           (w, False) ''pg_trgm'') ''btree_gist'') ''postgis'') ''postgis_topology''))"
proof -
  let ?s4 = "attempt_extension q (attempt_extension q (attempt_extension q
     (attempt_extension q (w, False) ''pg_trgm'') ''btree_gist'') ''postgis'') ''postgis_topology''"
  have run: "enable_loop q extensions False w = (Inr (snd ?s4), fst ?s4)"
    by (simp add: extensions_def enable_step returns_def del: enable_loop.simps(2))
  show ?thesis
    by (simp add: enableExtensions_def and_then_def run
        set_postgisAvailable_def console_log_def returns_def record_capability_def)
qed


text \<open>
  C8. For every connection and every state, \<open>enableExtensions\<close> returns normally (no
  entry of its list is required, so no failure is rethrown) in the state reached by
  attempting \<open>pg_trgm\<close>, \<open>btree_gist\<close>, \<open>postgis\<close>, \<open>postgis_topology\<close> in this order, each
  failure logged and swallowed, and then recording the flag; the recorded flag is true
  exactly when the statement enabling \<open>postgis\<close> did not throw in the state in which it was
  attempted.
\<close>

theorem C8_probe_order_and_flag:
  "enableExtensions q w =
     (Inr (), record_capability
        (attempt_extension q (attempt_extension q (attempt_extension q (attempt_extension q
           (w, False) ''pg_trgm'') ''btree_gist'') ''postgis'') ''postgis_topology''))
   \<and> postgisAvailable (snd (enableExtensions q w)) =
       (\<not> isl (q (CreateExtension ''postgis'')
          (db (fst (attempt_extension q (attempt_extension q (w, False) ''pg_trgm'')
             ''btree_gist'')))))"
  by (simp add: enableExtensions_result record_capability_def snd_attempt_extension)

section \<open>Properties of createIndexes, createTables and initializeSchema\<close>














section \<open>Properties of importVillages\<close>

lemma import_round_error:
  assumes "import_feature q f w = (Inl e, w1)"
  shows "import_round q f c w =
     (Inr (c\<lparr>errors := errors c + 1\<rparr>, 10 < errors c + 1),
      w1\<lparr>console := console w1 @
        (if 10 < errors c + 1 then [ImportError e, TooManyErrors] else [ImportError e])\<rparr>)"
  using assms
  by (simp add: import_round_def try_catch_def and_then_def console_log_def returns_def)

lemma import_round_success:
  assumes "import_feature q f w = (Inr out, w1)"
  shows "\<exists>w2. import_round q f c w =
     (Inr (case out of Skipped \<Rightarrow> c\<lparr>skipped := skipped c + 1\<rparr>
                   | Imported \<Rightarrow> c\<lparr>imported := imported c + 1\<rparr>, False), w2)
     \<and> db w2 = db w1"
  using assms
  by (cases out)
     (simp_all add: import_round_def try_catch_def and_then_def console_log_def returns_def)

lemma import_round_cases:
  obtains (failed) e w1 where "import_feature q f w = (Inl e, w1)"
  | (passed) out w1 where "import_feature q f w = (Inr out, w1)"
  by (cases "import_feature q f w") (metis sum.exhaust)

lemma import_loop_returns: "\<exists>c' w'. import_loop q fs c w = (Inr c', w')"
proof (induction fs arbitrary: c w)
  case Nil
  show ?case by (simp add: returns_def)
next
  case (Cons f fs)
  show ?case
  proof (cases rule: import_round_cases[of q f w])
    case (failed e w1)
    from import_round_error[OF this, of c] Cons[of "c\<lparr>errors := errors c + 1\<rparr>"]
    show ?thesis by (auto simp: and_then_def returns_def)
  next
    case (passed out w1)
    from import_round_success[OF this, of c] obtain w2 where
      "import_round q f c w =
        (Inr (case out of Skipped \<Rightarrow> c\<lparr>skipped := skipped c + 1\<rparr>
                      | Imported \<Rightarrow> c\<lparr>imported := imported c + 1\<rparr>, False), w2)" by blast
    with Cons show ?thesis by (simp add: and_then_def)
  qed
qed

lemma import_loop_append:
  assumes "import_loop q xs c w = (Inr c1, w1)" "errors c1 \<le> 10"
  shows "import_loop q (xs @ ys) c w = import_loop q ys c1 w1"
  using assms
proof (induction xs arbitrary: c w)
  case Nil
  then show ?case by (simp add: returns_def)
next
  case (Cons f fs)
  show ?case
  proof (cases rule: import_round_cases[of q f w])
    case (failed e w1')
    note r = import_round_error[OF this, of c]
    show ?thesis
    proof (cases "10 < errors c + 1")
      case True
      with r Cons.prems show ?thesis by (auto simp: and_then_def returns_def)
    next
      case False
      with r Cons.prems Cons.IH show ?thesis by (simp add: and_then_def)
    qed
  next
    case (passed out w1')
    from import_round_success[OF this, of c] obtain w2 where
      "import_round q f c w =
        (Inr (case out of Skipped \<Rightarrow> c\<lparr>skipped := skipped c + 1\<rparr>
                      | Imported \<Rightarrow> c\<lparr>imported := imported c + 1\<rparr>, False), w2)" by blast
    with Cons.prems Cons.IH show ?thesis by (simp add: and_then_def)
  qed
qed

lemma import_loop_failures_continue:
  assumes "\<And>f v. f \<in> set fs \<Longrightarrow> \<exists>e. import_feature q f v = (Inl e, v)"
    "errors c + length fs \<le> 10"
  shows "\<exists>w1. db w1 = db w \<and> (\<forall>rest. import_loop q (fs @ rest) c w =
      import_loop q rest (c\<lparr>errors := errors c + length fs\<rparr>) w1)"
  using assms
proof (induction fs arbitrary: c w)
  case Nil
  then show ?case by auto
next
  case (Cons f fs)
  from Cons.prems(1)[of f w] obtain e where "import_feature q f w = (Inl e, w)"
    by auto
  note r = import_round_error[OF this, of c]
  from Cons.prems have "errors (c\<lparr>errors := errors c + 1\<rparr>) + length fs \<le> 10" by simp
  from Cons.IH[OF _ this, of "w\<lparr>console := console w @ [ImportError e]\<rparr>"] Cons.prems(1)
  obtain w2 where "db w2 = db w"
    "\<forall>rest. import_loop q (fs @ rest) (c\<lparr>errors := errors c + 1\<rparr>)
        (w\<lparr>console := console w @ [ImportError e]\<rparr>) =
      import_loop q rest (c\<lparr>errors := errors c + 1 + length fs\<rparr>) w2"
    by fastforce
  with r Cons.prems(2) show ?case by (auto simp: and_then_def)
qed

lemma import_loop_eleventh_failure:
  assumes "\<exists>e. import_feature q f w = (Inl e, w)" "errors c = 10"
  shows "\<exists>w1. db w1 = db w
     \<and> (\<forall>rest. import_loop q (f # rest) c w = (Inr (c\<lparr>errors := 11\<rparr>), w1))
     \<and> last (console w1) = TooManyErrors"
proof -
  from assms(1) obtain e where "import_feature q f w = (Inl e, w)"
    by auto
  from import_round_error[OF this, of c] assms(2) show ?thesis
    by (simp add: and_then_def returns_def)
qed

lemma importVillages_summary:
  assumes "q SelectNow (db w) = Inr (r, d)"
    "import_loop q fs \<lparr>imported = 0, skipped = 0, errors = 0\<rparr> (w\<lparr>db := d\<rparr>) = (Inr c, w1)"
  shows "\<exists>tl. console (snd (importVillages q fs w)) =
      console w1 @ ImportSummary (imported c) (skipped c) (errors c) # tl"
proof (cases "q (SelectCount ''villages'') (db w1)")
  case (Inl e)
  with assms show ?thesis
    by (simp add: importVillages_def try_catch_def and_then_def query_def console_log_def
        throws_def)
next
  case (Inr x)
  obtain rows d' where "x = (rows, d')" by (cases x)
  with Inr assms show ?thesis
    by (cases rows)
       (simp_all add: importVillages_def try_catch_def and_then_def query_def console_log_def
          throws_def)
qed

text \<open>
  C2. Let the connection test succeed, let the records \<open>pre\<close> be processed with at most
  10 failures, and let them be followed by as many records as are missing to 11 failures,
  each of which throws (leaving the database as it is); with a failure-free \<open>pre\<close> these
  are 11 consecutive failures. Then, whatever records \<open>rest\<close> follow, the loop ends at the
  11th failure with the imported and skipped counts of \<open>pre\<close> and \<open>errors = 11\<close>, its
  last console line is the stop message, the database is the one \<open>pre\<close> left (nothing
  is rolled back, nothing of \<open>rest\<close> is processed), and \<open>importVillages\<close> prints the summary
  with these counters. After one failing record less the loop goes on with \<open>rest\<close>.
\<close>

theorem C2_halts_at_eleventh_failure:
  assumes conn: "q SelectNow (db w) = Inr (r, d)"
    and pre: "import_loop q pre \<lparr>imported = 0, skipped = 0, errors = 0\<rparr> (w\<lparr>db := d\<rparr>) =
        (Inr c1, w1)" "errors c1 \<le> 10"
    and fails: "errors c1 + length fails = 11"
      "\<And>f v. f \<in> set fails \<Longrightarrow> \<exists>e. import_feature q f v = (Inl e, v)"
  shows "\<exists>w2.
      (\<forall>rest. import_loop q (pre @ fails @ rest) \<lparr>imported = 0, skipped = 0, errors = 0\<rparr>
          (w\<lparr>db := d\<rparr>) = (Inr (c1\<lparr>errors := 11\<rparr>), w2))
      \<and> last (console w2) = TooManyErrors
      \<and> db w2 = db w1
      \<and> (\<forall>rest. \<exists>tl. console (snd (importVillages q (pre @ fails @ rest) w)) =
            console w2 @ ImportSummary (imported c1) (skipped c1) 11 # tl)
      \<and> (\<exists>v. \<forall>rest. import_loop q (pre @ butlast fails @ rest)
            \<lparr>imported = 0, skipped = 0, errors = 0\<rparr> (w\<lparr>db := d\<rparr>) =
          import_loop q rest (c1\<lparr>errors := 10\<rparr>) v)"
proof -
  let ?z = "\<lparr>imported = 0, skipped = 0, errors = 0\<rparr>"
  let ?w = "w\<lparr>db := d\<rparr>"
  have app: "import_loop q (pre @ ys) ?z ?w = import_loop q ys c1 w1" for ys
    using import_loop_append[OF pre(1)] pre(2) by simp
  have ne: "fails \<noteq> []" using fails(1) pre(2) by auto
  have ten: "errors c1 + length (butlast fails) \<le> 10" "errors c1 + length (butlast fails) = 10"
    using fails(1) pre(2) by simp_all
  have bl: "\<And>f v. f \<in> set (butlast fails) \<Longrightarrow> \<exists>e. import_feature q f v = (Inl e, v)"
    using fails(2) by (meson in_set_butlastD)
  from import_loop_failures_continue[of "butlast fails" q c1 w1, OF bl ten(1)] ten(2)
  obtain v where v: "db v = db w1" "\<forall>rest. import_loop q (butlast fails @ rest) c1 w1 =
      import_loop q rest (c1\<lparr>errors := 10\<rparr>) v" by auto
  have "\<exists>e. import_feature q (last fails) v = (Inl e, v)"
    using fails(2)[of "last fails" v] ne by simp
  from import_loop_eleventh_failure[OF this, of "c1\<lparr>errors := 10\<rparr>"]
  obtain w2 where w2: "db w2 = db v"
    "\<forall>rest. import_loop q (last fails # rest) (c1\<lparr>errors := 10\<rparr>) v =
      (Inr (c1\<lparr>errors := 11\<rparr>), w2)" "last (console w2) = TooManyErrors"
    by auto
  have split: "fails @ rest = butlast fails @ (last fails # rest)" for rest
    using ne by simp
  have run: "import_loop q (pre @ fails @ rest) ?z ?w = (Inr (c1\<lparr>errors := 11\<rparr>), w2)" for rest
    unfolding app split using v(2) w2(2) by simp
  have summary: "\<exists>tl. console (snd (importVillages q (pre @ fails @ rest) w)) =
      console w2 @ ImportSummary (imported c1) (skipped c1) 11 # tl" for rest
    using importVillages_summary[OF conn run[of rest]] by simp
  have cont: "import_loop q (pre @ butlast fails @ rest) ?z ?w =
      import_loop q rest (c1\<lparr>errors := 10\<rparr>) v" for rest
    unfolding app using v(2) by simp
  have "db w2 = db w1" using w2(1) v(1) by simp
  with run w2(3) summary cont show ?thesis by blast
qed

lemma truthy_to_param: "truthy v \<Longrightarrow> \<exists>t. to_param v = Some t"
proof (cases v)
  case None
  then show "truthy v \<Longrightarrow> ?thesis" by simp
next
  case (Some x)
  then show "truthy v \<Longrightarrow> ?thesis" by (cases x) (auto simp: to_param_def)
qed

lemma village_name_Some: "\<exists>nm. village_name p = Some nm"
proof -
  have "truthy (or_else (map_of p ''name'') (or_else (map_of p ''NAME'') (Some (JStr ''Unknown''))))"
    by (simp add: or_else_def)
  from truthy_to_param[OF this] show ?thesis by (simp add: village_name_def)
qed

lemma import_feature_no_properties:
  "feature_properties f = None \<Longrightarrow>
     import_feature q f w = (Inl (TypeError ''Cannot read properties of undefined''), w)"
  by (simp add: import_feature_def throws_def)


lemma import_feature_pg_inserts:
  assumes "feature_properties f = Some p" "select_ready (db w)" "insert_ready (db w)"
    "\<forall>r \<in> set (villages_rows (db w)). \<not> matches p r"
  shows "import_feature pg_query f w =
     (Inr Imported,
      w\<lparr>db := (db w)\<lparr>villages_rows := villages_rows (db w) @
           [\<lparr>id_col = villages_seq (db w) + 1, gid = village_gid p, name = the (village_name p),
             state = village_state p, district = village_district p, block = village_block p,
             properties = p, boundary_geojson = feature_geometry f,
             centroid_lat = None, centroid_lon = None\<rparr>],
         villages_seq := villages_seq (db w) + 1\<rparr>\<rparr>)"
proof -
  from assms(4) have "filter (matches p) (villages_rows (db w)) = []"
    by (simp add: filter_empty_conv)
  moreover obtain nm where "village_name p = Some nm"
    using village_name_Some by blast
  ultimately show ?thesis using assms(1,2,3)
    by (simp add: import_feature_def and_then_def query_def returns_def matches_def[abs_def])
qed


lemma ready_after_insert [simp]:
  "select_ready (d\<lparr>villages_rows := x, villages_seq := y\<rparr>) = select_ready d"
  "insert_ready (d\<lparr>villages_rows := x, villages_seq := y\<rparr>) = insert_ready d"
  by (simp_all add: select_ready_def insert_ready_def has_columns_def)

lemma importVillages_pg_db:
  "db (snd (importVillages pg_query fs w)) =
     db (snd (import_loop pg_query fs \<lparr>imported = 0, skipped = 0, errors = 0\<rparr> w))"
proof -
  obtain c w1 where l: "import_loop pg_query fs \<lparr>imported = 0, skipped = 0, errors = 0\<rparr> w =
      (Inr c, w1)"
    using import_loop_returns by blast
  have w: "w\<lparr>db := db w\<rparr> = w" by simp
  show ?thesis
    using l
    by (simp add: importVillages_def try_catch_def and_then_def query_def console_log_def
        throws_def w)
qed



lemma fallback_db_ready: "select_ready fallback_db" "insert_ready fallback_db"
  by (simp_all add: select_ready_def insert_ready_def has_columns_def fallback_db_def
      villages_columns_def col_def)

lemma named_feature_fields:
  "feature_properties (named_feature n) = Some [(''name'', JStr n)]"
  "village_gid [(''name'', JStr n)] = None"
  "village_district [(''name'', JStr n)] = None"
  "n \<noteq> [] \<Longrightarrow> village_name [(''name'', JStr n)] = Some n"
  by (simp_all add: named_feature_def village_gid_def village_district_def village_name_def
      or_else_def to_param_def)




lemma broken_fails: "\<exists>e. import_feature q broken_feature v = (Inl e, v)"
  by (simp add: import_feature_no_properties broken_feature_def)

theorem C2_halt_witness:
  "ImportSummary 1 0 11 \<in> set (console (snd (importVillages pg_query
      ([named_feature ''Amba''] @ replicate 11 broken_feature @ [named_feature ''Bari''])
      (start fallback_db))))
   \<and> map name (villages_rows (db (snd (importVillages pg_query
      ([named_feature ''Amba''] @ replicate 11 broken_feature @ [named_feature ''Bari''])
      (start fallback_db))))) = [''Amba'']"
proof -
  let ?w = "start fallback_db"
  let ?z = "\<lparr>imported = 0, skipped = 0, errors = 0\<rparr>"
  let ?c1 = "\<lparr>imported = 1, skipped = 0, errors = 0\<rparr>"
  let ?w1 = "snd (import_loop pg_query [named_feature ''Amba''] ?z ?w)"
  let ?fs = "[named_feature ''Amba''] @ replicate 11 broken_feature @ [named_feature ''Bari'']"
  have conn: "pg_query SelectNow (db ?w) = Inr ([0], fallback_db)"
    by (simp add: start_def)
  have w: "?w\<lparr>db := fallback_db\<rparr> = ?w"
    by (simp add: start_def)
  have r: "select_ready (db ?w)" "insert_ready (db ?w)"
    by (simp_all add: start_def fallback_db_ready)
  have nm: "\<forall>r \<in> set (villages_rows (db ?w)). \<not> matches [(''name'', JStr ''Amba'')] r"
    by (simp add: start_def fallback_db_def fresh_db_def)
  note ins = import_feature_pg_inserts[OF named_feature_fields(1) r nm]
  have one: "fst (import_loop pg_query [named_feature ''Amba''] ?z ?w) = Inr ?c1"
    "map name (villages_rows (db ?w1)) = [''Amba'']"
    using ins
    by (simp_all add: import_round_def try_catch_def and_then_def console_log_def returns_def
        start_def fallback_db_def fresh_db_def named_feature_fields(4))
  then have pre: "import_loop pg_query [named_feature ''Amba''] ?z (?w\<lparr>db := fallback_db\<rparr>) =
      (Inr ?c1, ?w1)"
    unfolding w by (simp add: prod_eq_iff)
  have e0: "errors ?c1 \<le> 10"
    by simp
  have len: "errors ?c1 + length (replicate 11 broken_feature) = 11"
    by simp
  have "\<exists>w2. (\<forall>rest. import_loop pg_query
          ([named_feature ''Amba''] @ replicate 11 broken_feature @ rest) ?z
          (?w\<lparr>db := fallback_db\<rparr>) = (Inr (?c1\<lparr>errors := 11\<rparr>), w2))
      \<and> last (console w2) = TooManyErrors
      \<and> db w2 = db ?w1
      \<and> (\<forall>rest. \<exists>tl. console (snd (importVillages pg_query
            ([named_feature ''Amba''] @ replicate 11 broken_feature @ rest) ?w)) =
            console w2 @ ImportSummary (imported ?c1) (skipped ?c1) 11 # tl)
      \<and> (\<exists>v. \<forall>rest. import_loop pg_query
            ([named_feature ''Amba''] @ butlast (replicate 11 broken_feature) @ rest) ?z
            (?w\<lparr>db := fallback_db\<rparr>) =
          import_loop pg_query rest (?c1\<lparr>errors := 10\<rparr>) v)"
    by (rule C2_halts_at_eleventh_failure[OF conn pre e0 len]) (simp add: broken_fails)
  then obtain w2 :: "pgdb world" where
    run: "import_loop pg_query ?fs ?z ?w = (Inr (?c1\<lparr>errors := 11\<rparr>), w2)"
    and same: "db w2 = db ?w1"
    and a: "\<exists>tl. console (snd (importVillages pg_query ?fs ?w)) =
        console w2 @ ImportSummary (imported ?c1) (skipped ?c1) 11 # tl"
    unfolding w by blast
  from a have 1: "ImportSummary 1 0 11 \<in> set (console (snd (importVillages pg_query ?fs ?w)))"
    by auto
  have "db (snd (importVillages pg_query ?fs ?w)) = db ?w1"
    unfolding importVillages_pg_db run using same by simp
  with one(2) have 2: "map name (villages_rows (db (snd (importVillages pg_query ?fs ?w)))) =
      [''Amba'']"
    by simp
  from 1 2 show ?thesis by blast
qed















section \<open>Properties of initializeSchema on the model server\<close>
































































end
